theory Spec2Isabelle
  imports Main
begin

section \<open>Data model of main.go\<close>

text \<open>
  The command-line flags of \<^verbatim>\<open>init\<close>. They are package variables, set once and read
  by every function; the model passes them as a record.
\<close>

record config =
  configMapName :: string
  configMapNamespace :: string
  labelSelector :: string
  watchKey :: string
  mainContainerName :: string

text \<open>The flag defaults of \<^verbatim>\<open>init\<close>.\<close>

definition default_config :: config where
  "default_config =
     \<lparr>configMapName = ''watch-namespace-config'',
      configMapNamespace = ''vault'',
      labelSelector = ''foo=bar'',
      watchKey = ''WATCH_NAMESPACE'',
      mainContainerName = ''main-container''\<rparr>"

text \<open>
  A Go \<^verbatim>\<open>map[string]string\<close>. \<open>None\<close> is the nil map: reading it gives the zero value,
  assigning to it panics. \<open>Some m\<close> is an allocated map.
\<close>

type_synonym go_map = "(string \<rightharpoonup> string) option"

definition data_get :: "go_map \<Rightarrow> string \<Rightarrow> string" where
  \<comment> \<open>\<^verbatim>\<open>d[k]\<close> as an expression: the empty string for a missing key and for a nil map\<close>
  "data_get d k =
     (case d of
        None \<Rightarrow> []
      | Some m \<Rightarrow> (case m k of None \<Rightarrow> [] | Some v \<Rightarrow> v))"

definition data_set :: "go_map \<Rightarrow> string \<Rightarrow> string \<Rightarrow> go_map option" where
  \<comment> \<open>\<^verbatim>\<open>d[k] = v\<close>: \<open>None\<close> is the panic "assignment to entry in nil map"\<close>
  "data_set d k v =
     (case d of
        None \<Rightarrow> None
      | Some m \<Rightarrow> Some (Some (m(k \<mapsto> v))))"

text \<open>
  The fields of \<^verbatim>\<open>v1.ConfigMap\<close> that the program touches or carries: the name and
  namespace of \<^verbatim>\<open>ObjectMeta\<close>, the version token the server put there, and \<^verbatim>\<open>Data\<close>.
\<close>

record configmap =
  cm_name :: string
  cm_namespace :: string
  cm_resourceVersion :: string
  cm_data :: go_map

text \<open>An item of a \<^verbatim>\<open>NamespaceList\<close>; only \<^verbatim>\<open>Name\<close> is read.\<close>

record namespace =
  ns_name :: string

text \<open>
  A non-nil \<^verbatim>\<open>error\<close> of a client-go call. The program never inspects the error, it
  only tests \<^verbatim>\<open>err != nil\<close>; the kinds are kept apart here so that statements can.
\<close>

datatype api_error = NotFound | AlreadyExists | Conflict | Transient

datatype pid_error = CommandFailed | PIDNotFound

text \<open>
  What a pass does to the outside, in order. \<open>Print\<close> carries the fixed part of the
  message of a \<^verbatim>\<open>fmt.Printf\<close>/\<^verbatim>\<open>fmt.Println\<close> (the rendering of the error is left out).
\<close>

datatype event =
    ListNamespaces string
  | GetConfigMap string string
  | CreateConfigMap string configmap
  | UpdateConfigMap string configmap
  | Pgrep string
  | Kill string
  | Print string

text \<open>How a call of \<^verbatim>\<open>updateConfigMap\<close> ends: it returns, or a runtime panic unwinds it.\<close>

datatype outcome = Returned | Panicked

section \<open>The environment\<close>

text \<open>
  Everything outside the process, as one state: the answer of the namespace list call,
  the config object stored at (\<^verbatim>\<open>configMapNamespace\<close>, \<^verbatim>\<open>configMapName\<close>) if there is one,
  a failure to inject into each store call, the answer of \<^verbatim>\<open>pgrep\<close> (\<open>None\<close>: the command
  ended with an error, which is also what \<^verbatim>\<open>pgrep\<close> does when nothing matches; \<open>Some out\<close>:
  its standard output), whether \<^verbatim>\<open>kill\<close> succeeds, and the events so far.
\<close>

record world =
  namespaces :: "api_error + namespace list"
  stored :: "configmap option"
  get_fault :: "api_error option"
  create_fault :: "api_error option"
  update_fault :: "api_error option"
  pgrep_out :: "string option"
  kill_ok :: bool
  trace :: "event list"

definition emit :: "event \<Rightarrow> world \<Rightarrow> world" where
  "emit e w = w\<lparr>trace := trace w @ [e]\<rparr>"

text \<open>
  The three store calls of the client. A call without an injected failure behaves as
  the API server does on one object: Get answers the stored object or NotFound, Create
  refuses an existing object, Update needs one and replaces it.
\<close>

definition store_get :: "string \<Rightarrow> string \<Rightarrow> world \<Rightarrow> (api_error + configmap) \<times> world" where
  "store_get ns name w =
     (let w1 = emit (GetConfigMap ns name) w in
      case get_fault w1 of
        Some e \<Rightarrow> (Inl e, w1)
      | None \<Rightarrow>
          (case stored w1 of
             None \<Rightarrow> (Inl NotFound, w1)
           | Some cm \<Rightarrow> (Inr cm, w1)))"

definition store_create :: "string \<Rightarrow> configmap \<Rightarrow> world \<Rightarrow> api_error option \<times> world" where
  "store_create ns cm w =
     (let w1 = emit (CreateConfigMap ns cm) w in
      case create_fault w1 of
        Some e \<Rightarrow> (Some e, w1)
      | None \<Rightarrow>
          (case stored w1 of
             Some old \<Rightarrow> (Some AlreadyExists, w1)
           | None \<Rightarrow> (None, w1\<lparr>stored := Some cm\<rparr>)))"

definition store_update :: "string \<Rightarrow> configmap \<Rightarrow> world \<Rightarrow> api_error option \<times> world" where
  "store_update ns cm w =
     (let w1 = emit (UpdateConfigMap ns cm) w in
      case update_fault w1 of
        Some e \<Rightarrow> (Some e, w1)
      | None \<Rightarrow>
          (case stored w1 of
             None \<Rightarrow> (Some NotFound, w1)
           | Some old \<Rightarrow> (None, w1\<lparr>stored := Some cm\<rparr>)))"

section \<open>The string functions used\<close>

text \<open>\<^verbatim>\<open>strings.Join(elems, sep)\<close>.\<close>

fun strings_Join :: "string list \<Rightarrow> string \<Rightarrow> string" where
  "strings_Join [] sep = []"
| "strings_Join [x] sep = x"
| "strings_Join (x # y # ys) sep = x @ sep @ strings_Join (y # ys) sep"

text \<open>
  \<^verbatim>\<open>strings.Fields(s)\<close> on the output of \<^verbatim>\<open>pgrep\<close>, which is ASCII: the maximal runs of
  characters that are not white space (tab, line feed, vertical tab, form feed,
  carriage return, space). Go also splits at the white space of Unicode beyond ASCII;
  the model does not, and agrees with Go on every ASCII input. \<open>cur\<close> is the current
  field, reversed.
\<close>

definition is_space :: "char \<Rightarrow> bool" where
  "is_space c =
     (c = CHR 0x09 \<or> c = CHR 0x0A \<or> c = CHR 0x0B \<or> c = CHR 0x0C \<or> c = CHR 0x0D \<or> c = CHR '' '')"

fun fields_from :: "string \<Rightarrow> string \<Rightarrow> string list" where
  "fields_from cur [] = (if cur = [] then [] else [rev cur])"
| "fields_from cur (c # cs) =
     (if is_space c
      then (if cur = [] then fields_from [] cs else rev cur # fields_from [] cs)
      else fields_from (c # cur) cs)"

definition strings_Fields :: "string \<Rightarrow> string list" where
  "strings_Fields s = fields_from [] s"

section \<open>The functions of main.go\<close>

text \<open>The loop of \<^verbatim>\<open>getFilteredNamespaces\<close>: append each item's name to \<^verbatim>\<open>nsList\<close>.\<close>

fun collect_names :: "namespace list \<Rightarrow> string list \<Rightarrow> string list" where
  "collect_names [] nsList = nsList"
| "collect_names (ns # items) nsList = collect_names items (nsList @ [ns_name ns])"

definition getFilteredNamespaces :: "config \<Rightarrow> world \<Rightarrow> (api_error + string list) \<times> world" where
  "getFilteredNamespaces cfg w =
     (let w1 = emit (ListNamespaces (labelSelector cfg)) w in
      case namespaces w1 of
        Inl err \<Rightarrow> (Inl err, w1)
      | Inr items \<Rightarrow> (Inr (collect_names items []), w1))"

text \<open>The object literal of \<^verbatim>\<open>createConfigMap\<close>; it carries no version token.\<close>

definition new_configmap :: "config \<Rightarrow> string \<Rightarrow> configmap" where
  "new_configmap cfg v =
     \<lparr>cm_name = configMapName cfg,
      cm_namespace = configMapNamespace cfg,
      cm_resourceVersion = [],
      cm_data = Some [watchKey cfg \<mapsto> v]\<rparr>"

definition createConfigMap :: "config \<Rightarrow> string \<Rightarrow> world \<Rightarrow> world" where
  "createConfigMap cfg v w =
     (let cm = new_configmap cfg v
      in case store_create (configMapNamespace cfg) cm w of
           (Some err, w1) \<Rightarrow> emit (Print ''Error creating ConfigMap'') w1
         | (None, w1) \<Rightarrow> w1)"

definition getMainContainerPID :: "config \<Rightarrow> world \<Rightarrow> (pid_error + string) \<times> world" where
  "getMainContainerPID cfg w =
     (let w1 = emit (Pgrep (mainContainerName cfg)) w in
      case pgrep_out w1 of
        None \<Rightarrow> (Inl CommandFailed, w1)
      | Some out \<Rightarrow>
          (case strings_Fields out of
             pid # rest \<Rightarrow> (Inr pid, w1)
           | [] \<Rightarrow> (Inl PIDNotFound, w1)))"

definition killMainContainer :: "config \<Rightarrow> world \<Rightarrow> world" where
  "killMainContainer cfg w =
     (let w1 = emit (Print ''Restarting main container...'') w in
      case getMainContainerPID cfg w1 of
        (Inl err, w2) \<Rightarrow> emit (Print ''Error getting main container PID'') w2
      | (Inr pid, w2) \<Rightarrow>
          (let w3 = emit (Kill pid) w2 in
           if kill_ok w3 then w3
           else emit (Print ''Error sending SIGTERM to main container'') w3))"

text \<open>
  \<^verbatim>\<open>updateConfigMap\<close>, one reconciliation pass. The mutex makes passes run one at a
  time; a pass is a function from the world before it to the world after it.
\<close>

definition updateConfigMap :: "config \<Rightarrow> world \<Rightarrow> outcome \<times> world" where
  "updateConfigMap cfg w =
     (case getFilteredNamespaces cfg w of
        (Inl err, w1) \<Rightarrow> (Returned, emit (Print ''Error getting namespaces'') w1)
      | (Inr names, w1) \<Rightarrow>
          (let newValue = strings_Join names '','' in
           case store_get (configMapNamespace cfg) (configMapName cfg) w1 of
             (Inl err, w2) \<Rightarrow> (Returned, createConfigMap cfg newValue w2)
           | (Inr cm, w2) \<Rightarrow>
               if data_get (cm_data cm) (watchKey cfg) = newValue then (Returned, w2)
               else
                 (case data_set (cm_data cm) (watchKey cfg) newValue of
                    None \<Rightarrow> (Panicked, w2)
                  | Some d \<Rightarrow>
                      (case store_update (configMapNamespace cfg) (cm\<lparr>cm_data := d\<rparr>) w2 of
                         (Some err, w3) \<Rightarrow> (Returned, emit (Print ''Error updating ConfigMap'') w3)
                       | (None, w3) \<Rightarrow> (Returned, killMainContainer cfg w3)))))"

section \<open>Observing a pass\<close>

text \<open>The events of one pass: what it appended to the trace.\<close>

definition pass_events :: "config \<Rightarrow> world \<Rightarrow> event list" where
  "pass_events cfg w = drop (length (trace w)) (trace (snd (updateConfigMap cfg w)))"

fun is_list :: "event \<Rightarrow> bool" where
  "is_list (ListNamespaces sel) = True"
| "is_list e = False"

fun is_get :: "event \<Rightarrow> bool" where
  "is_get (GetConfigMap ns n) = True"
| "is_get e = False"

fun is_create :: "event \<Rightarrow> bool" where
  "is_create (CreateConfigMap ns cm) = True"
| "is_create e = False"

fun is_update :: "event \<Rightarrow> bool" where
  "is_update (UpdateConfigMap ns cm) = True"
| "is_update e = False"

fun is_pgrep :: "event \<Rightarrow> bool" where
  "is_pgrep (Pgrep p) = True"
| "is_pgrep e = False"

fun is_kill :: "event \<Rightarrow> bool" where
  "is_kill (Kill pid) = True"
| "is_kill e = False"

definition lists :: "event list \<Rightarrow> nat" where
  "lists evs = length (filter is_list evs)"

definition gets :: "event list \<Rightarrow> nat" where
  "gets evs = length (filter is_get evs)"

definition creates :: "event list \<Rightarrow> nat" where
  "creates evs = length (filter is_create evs)"

definition updates :: "event list \<Rightarrow> nat" where
  "updates evs = length (filter is_update evs)"

definition writes :: "event list \<Rightarrow> nat" where
  "writes evs = creates evs + updates evs"

text \<open>
  Every call of \<^verbatim>\<open>killMainContainer\<close> runs \<^verbatim>\<open>pgrep\<close> exactly once, so the \<open>Pgrep\<close> events
  count the invocations of the signaler; the \<open>Kill\<close> events count the signals sent.
\<close>

definition signaler_calls :: "event list \<Rightarrow> nat" where
  "signaler_calls evs = length (filter is_pgrep evs)"

definition kills :: "event list \<Rightarrow> nat" where
  "kills evs = length (filter is_kill evs)"

text \<open>The value at key \<open>k\<close> of each object handed to Create or Update, in order.\<close>

fun written_values :: "string \<Rightarrow> event list \<Rightarrow> string list" where
  "written_values k [] = []"
| "written_values k (CreateConfigMap ns cm # evs) = data_get (cm_data cm) k # written_values k evs"
| "written_values k (UpdateConfigMap ns cm # evs) = data_get (cm_data cm) k # written_values k evs"
| "written_values k (e # evs) = written_values k evs"

text \<open>The value the stored object holds at the watched key, if there is an object.\<close>

definition stored_value :: "config \<Rightarrow> world \<Rightarrow> string option" where
  "stored_value cfg w = map_option (\<lambda>cm. data_get (cm_data cm) (watchKey cfg)) (stored w)"

section \<open>Concrete worlds\<close>

definition named :: "string \<Rightarrow> namespace" where
  "named n = \<lparr>ns_name = n\<rparr>"

text \<open>
  An object as Get would return it under the default flags: the watched key holds
  \<open>a,b\<close>, and there is one more key.
\<close>

definition stored_ab :: configmap where
  "stored_ab =
     \<lparr>cm_name = ''watch-namespace-config'',
      cm_namespace = ''vault'',
      cm_resourceVersion = ''7'',
      cm_data = Some [''WATCH_NAMESPACE'' \<mapsto> ''a,b'', ''OTHER'' \<mapsto> ''x'']\<rparr>"

text \<open>An object that exists and has no data: the client decodes it with a nil map.\<close>

definition stored_no_data :: configmap where
  "stored_no_data =
     \<lparr>cm_name = ''watch-namespace-config'',
      cm_namespace = ''vault'',
      cm_resourceVersion = ''7'',
      cm_data = None\<rparr>"

text \<open>
  A world in which no call fails: the lister answers \<open>items\<close>, the store holds \<open>st\<close>,
  \<^verbatim>\<open>pgrep\<close> prints \<open>p\<close> and \<^verbatim>\<open>kill\<close> does as \<open>k\<close> says.
\<close>

definition calm_world :: "namespace list \<Rightarrow> configmap option \<Rightarrow> string option \<Rightarrow> bool \<Rightarrow> world" where
  "calm_world items st p k =
     \<lparr>namespaces = Inr items, stored = st,
      get_fault = None, create_fault = None, update_fault = None,
      pgrep_out = p, kill_ok = k, trace = []\<rparr>"

text \<open>The same, with one process found, of PID 42.\<close>

definition quiet_world :: "namespace list \<Rightarrow> configmap option \<Rightarrow> world" where
  "quiet_world items st = calm_world items st (Some (''42'' @ [CHR 0x0A])) True"

text \<open>\<open>stored_ab\<close> with the watched key set to \<open>b,a\<close>.\<close>

definition stored_ba :: configmap where
  "stored_ba = stored_ab\<lparr>cm_data := Some [''WATCH_NAMESPACE'' \<mapsto> ''b,a'', ''OTHER'' \<mapsto> ''x'']\<rparr>"

text \<open>
  A change of membership between two passes: from now on the lister answers \<open>items\<close>.
\<close>

definition members_become :: "namespace list \<Rightarrow> world \<Rightarrow> world" where
  "members_become items w = w\<lparr>namespaces := Inr items\<rparr>"

section \<open>Each path of a pass\<close>

lemma collect_names_eq: "collect_names items acc = acc @ map ns_name items"
  by (induction items arbitrary: acc) simp_all

lemma list_ok:
  "namespaces w = Inr items \<Longrightarrow>
   getFilteredNamespaces cfg w =
     (Inr (map ns_name items), w\<lparr>trace := trace w @ [ListNamespaces (labelSelector cfg)]\<rparr>)"
  by (simp add: getFilteredNamespaces_def emit_def collect_names_eq)

lemma list_fail:
  "namespaces w = Inl e \<Longrightarrow>
   getFilteredNamespaces cfg w =
     (Inl e, w\<lparr>trace := trace w @ [ListNamespaces (labelSelector cfg)]\<rparr>)"
  by (simp add: getFilteredNamespaces_def emit_def)

lemma get_fails:
  "get_fault w \<noteq> None \<or> stored w = None \<Longrightarrow>
   \<exists>e. store_get ns n w = (Inl e, w\<lparr>trace := trace w @ [GetConfigMap ns n]\<rparr>)"
  by (auto simp: store_get_def emit_def Let_def split: option.splits)

lemma get_ok:
  "get_fault w = None \<Longrightarrow> stored w = Some cm \<Longrightarrow>
   store_get ns n w = (Inr cm, w\<lparr>trace := trace w @ [GetConfigMap ns n]\<rparr>)"
  by (simp add: store_get_def emit_def)

lemma create_result:
  "createConfigMap cfg v w =
     (if create_fault w = None \<and> stored w = None
      then w\<lparr>trace := trace w @ [CreateConfigMap (configMapNamespace cfg) (new_configmap cfg v)],
             stored := Some (new_configmap cfg v)\<rparr>
      else w\<lparr>trace := trace w @ [CreateConfigMap (configMapNamespace cfg) (new_configmap cfg v),
                                     Print ''Error creating ConfigMap'']\<rparr>)"
  by (auto simp: createConfigMap_def store_create_def emit_def Let_def split: option.splits)

lemma update_fails:
  "update_fault w = Some e \<Longrightarrow>
   store_update ns cm w = (Some e, w\<lparr>trace := trace w @ [UpdateConfigMap ns cm]\<rparr>)"
  by (simp add: store_update_def emit_def)

lemma update_ok:
  "update_fault w = None \<Longrightarrow> stored w = Some old \<Longrightarrow>
   store_update ns cm w = (None, w\<lparr>trace := trace w @ [UpdateConfigMap ns cm], stored := Some cm\<rparr>)"
  by (simp add: store_update_def emit_def)

lemma kill_result:
  "killMainContainer cfg w =
     w\<lparr>trace := trace w @
        Print ''Restarting main container...'' # Pgrep (mainContainerName cfg) #
        (case pgrep_out w of
           None \<Rightarrow> [Print ''Error getting main container PID'']
         | Some out \<Rightarrow>
             (case strings_Fields out of
                [] \<Rightarrow> [Print ''Error getting main container PID'']
              | pid # rest \<Rightarrow>
                  Kill pid # (if kill_ok w then [] else [Print ''Error sending SIGTERM to main container''])))\<rparr>"
  by (simp add: killMainContainer_def getMainContainerPID_def emit_def split: option.splits list.splits)

lemma pass_list_fail:
  "namespaces w = Inl e \<Longrightarrow>
   updateConfigMap cfg w =
     (Returned, w\<lparr>trace := trace w @ [ListNamespaces (labelSelector cfg), Print ''Error getting namespaces'']\<rparr>)"
  by (simp add: updateConfigMap_def list_fail emit_def)

lemma pass_create:
  assumes "namespaces w = Inr items" "get_fault w \<noteq> None \<or> stored w = None"
  shows "updateConfigMap cfg w =
     (Returned,
      createConfigMap cfg (strings_Join (map ns_name items) '','')
        (w\<lparr>trace := trace w @ [ListNamespaces (labelSelector cfg),
                                 GetConfigMap (configMapNamespace cfg) (configMapName cfg)]\<rparr>))"
proof -
  let ?w1 = "w\<lparr>trace := trace w @ [ListNamespaces (labelSelector cfg)]\<rparr>"
  have "get_fault ?w1 \<noteq> None \<or> stored ?w1 = None" using assms(2) by simp
  from get_fails [OF this, of "configMapNamespace cfg" "configMapName cfg"]
  obtain e where "store_get (configMapNamespace cfg) (configMapName cfg) ?w1 =
      (Inl e, ?w1\<lparr>trace := trace ?w1 @ [GetConfigMap (configMapNamespace cfg) (configMapName cfg)]\<rparr>)"
    by blast
  then show ?thesis
    by (simp add: updateConfigMap_def list_ok [OF assms(1)])
qed

lemma pass_same:
  assumes "namespaces w = Inr items" "get_fault w = None" "stored w = Some cm"
    "data_get (cm_data cm) (watchKey cfg) = strings_Join (map ns_name items) '',''"
  shows "updateConfigMap cfg w =
     (Returned,
      w\<lparr>trace := trace w @ [ListNamespaces (labelSelector cfg),
                              GetConfigMap (configMapNamespace cfg) (configMapName cfg)]\<rparr>)"
  using assms by (simp add: updateConfigMap_def list_ok get_ok)

lemma pass_nil_data:
  assumes "namespaces w = Inr items" "get_fault w = None" "stored w = Some cm"
    "data_get (cm_data cm) (watchKey cfg) \<noteq> strings_Join (map ns_name items) '',''"
    "cm_data cm = None"
  shows "updateConfigMap cfg w =
     (Panicked,
      w\<lparr>trace := trace w @ [ListNamespaces (labelSelector cfg),
                              GetConfigMap (configMapNamespace cfg) (configMapName cfg)]\<rparr>)"
  using assms by (simp add: updateConfigMap_def list_ok get_ok data_set_def)

lemma pass_update_fail:
  assumes "namespaces w = Inr items" "get_fault w = None" "stored w = Some cm"
    "data_get (cm_data cm) (watchKey cfg) \<noteq> strings_Join (map ns_name items) '',''"
    "cm_data cm = Some m" "update_fault w = Some e"
  shows "updateConfigMap cfg w =
     (Returned,
      w\<lparr>trace := trace w @
          [ListNamespaces (labelSelector cfg),
           GetConfigMap (configMapNamespace cfg) (configMapName cfg),
           UpdateConfigMap (configMapNamespace cfg)
             (cm\<lparr>cm_data := Some (m(watchKey cfg \<mapsto> strings_Join (map ns_name items) '',''))\<rparr>),
           Print ''Error updating ConfigMap'']\<rparr>)"
  using assms
  by (simp add: updateConfigMap_def list_ok get_ok data_set_def update_fails emit_def Let_def)

lemma pass_update_ok:
  assumes "namespaces w = Inr items" "get_fault w = None" "stored w = Some cm"
    "data_get (cm_data cm) (watchKey cfg) \<noteq> strings_Join (map ns_name items) '',''"
    "cm_data cm = Some m" "update_fault w = None"
  shows "updateConfigMap cfg w =
     (Returned,
      killMainContainer cfg
       (w\<lparr>trace := trace w @
          [ListNamespaces (labelSelector cfg),
           GetConfigMap (configMapNamespace cfg) (configMapName cfg),
           UpdateConfigMap (configMapNamespace cfg)
             (cm\<lparr>cm_data := Some (m(watchKey cfg \<mapsto> strings_Join (map ns_name items) '',''))\<rparr>)],
          stored := Some (cm\<lparr>cm_data := Some (m(watchKey cfg \<mapsto> strings_Join (map ns_name items) '',''))\<rparr>)\<rparr>))"
  using assms
  by (simp add: updateConfigMap_def list_ok get_ok data_set_def update_ok Let_def)

lemmas count_defs = lists_def gets_def creates_def updates_def writes_def signaler_calls_def kills_def

text \<open>The six paths cover every world.\<close>

lemma pass_cases [case_names list_fail create same nil_data update_fail update_ok]:
  fixes w :: world and cfg :: config
  obtains
    (list_fail) e where "namespaces w = Inl e"
  | (create) items where "namespaces w = Inr items" "get_fault w \<noteq> None \<or> stored w = None"
  | (same) items cm where "namespaces w = Inr items" "get_fault w = None" "stored w = Some cm"
      "data_get (cm_data cm) (watchKey cfg) = strings_Join (map ns_name items) '',''"
  | (nil_data) items cm where "namespaces w = Inr items" "get_fault w = None" "stored w = Some cm"
      "data_get (cm_data cm) (watchKey cfg) \<noteq> strings_Join (map ns_name items) '',''"
      "cm_data cm = None"
  | (update_fail) items cm m e where "namespaces w = Inr items" "get_fault w = None" "stored w = Some cm"
      "data_get (cm_data cm) (watchKey cfg) \<noteq> strings_Join (map ns_name items) '',''"
      "cm_data cm = Some m" "update_fault w = Some e"
  | (update_ok) items cm m where "namespaces w = Inr items" "get_fault w = None" "stored w = Some cm"
      "data_get (cm_data cm) (watchKey cfg) \<noteq> strings_Join (map ns_name items) '',''"
      "cm_data cm = Some m" "update_fault w = None"
proof (cases "namespaces w")
  case (Inl e)
  then show ?thesis by (rule list_fail)
next
  case (Inr items)
  show ?thesis
  proof (cases "get_fault w \<noteq> None \<or> stored w = None")
    case True
    with Inr show ?thesis by (rule create)
  next
    case False
    then obtain cm where g: "get_fault w = None" and s: "stored w = Some cm" by auto
    show ?thesis
    proof (cases "data_get (cm_data cm) (watchKey cfg) = strings_Join (map ns_name items) '',''")
      case True
      with Inr g s show ?thesis by (rule same)
    next
      case ne: False
      show ?thesis
      proof (cases "cm_data cm")
        case None
        with Inr g s ne show ?thesis by (rule nil_data)
      next
        case (Some m)
        show ?thesis
        proof (cases "update_fault w")
          case None
          with Inr g s ne Some show ?thesis by (rule update_ok)
        next
          case (Some e)
          with Inr g s ne \<open>cm_data cm = Some m\<close> show ?thesis by (rule update_fail)
        qed
      qed
    qed
  qed
qed

lemma events_list_fail:
  "namespaces w = Inl e \<Longrightarrow>
   pass_events cfg w = [ListNamespaces (labelSelector cfg), Print ''Error getting namespaces'']"
  by (simp add: pass_events_def pass_list_fail)

lemma events_create:
  assumes "namespaces w = Inr items" "get_fault w \<noteq> None \<or> stored w = None"
  shows "pass_events cfg w =
     ListNamespaces (labelSelector cfg) #
     GetConfigMap (configMapNamespace cfg) (configMapName cfg) #
     CreateConfigMap (configMapNamespace cfg) (new_configmap cfg (strings_Join (map ns_name items) '','')) #
     (if create_fault w = None \<and> stored w = None then [] else [Print ''Error creating ConfigMap''])"
  by (simp add: pass_events_def pass_create [OF assms] create_result)

lemma events_same:
  assumes "namespaces w = Inr items" "get_fault w = None" "stored w = Some cm"
    "data_get (cm_data cm) (watchKey cfg) = strings_Join (map ns_name items) '',''"
  shows "pass_events cfg w =
     [ListNamespaces (labelSelector cfg), GetConfigMap (configMapNamespace cfg) (configMapName cfg)]"
  by (simp add: pass_events_def pass_same [OF assms])

lemma events_nil_data:
  assumes "namespaces w = Inr items" "get_fault w = None" "stored w = Some cm"
    "data_get (cm_data cm) (watchKey cfg) \<noteq> strings_Join (map ns_name items) '',''"
    "cm_data cm = None"
  shows "pass_events cfg w =
     [ListNamespaces (labelSelector cfg), GetConfigMap (configMapNamespace cfg) (configMapName cfg)]"
  by (simp add: pass_events_def pass_nil_data [OF assms])

lemma events_update_fail:
  assumes "namespaces w = Inr items" "get_fault w = None" "stored w = Some cm"
    "data_get (cm_data cm) (watchKey cfg) \<noteq> strings_Join (map ns_name items) '',''"
    "cm_data cm = Some m" "update_fault w = Some e"
  shows "pass_events cfg w =
     [ListNamespaces (labelSelector cfg),
      GetConfigMap (configMapNamespace cfg) (configMapName cfg),
      UpdateConfigMap (configMapNamespace cfg)
        (cm\<lparr>cm_data := Some (m(watchKey cfg \<mapsto> strings_Join (map ns_name items) '',''))\<rparr>),
      Print ''Error updating ConfigMap'']"
  by (simp add: pass_events_def pass_update_fail [OF assms])

lemma events_update_ok:
  assumes "namespaces w = Inr items" "get_fault w = None" "stored w = Some cm"
    "data_get (cm_data cm) (watchKey cfg) \<noteq> strings_Join (map ns_name items) '',''"
    "cm_data cm = Some m" "update_fault w = None"
  shows "pass_events cfg w =
     ListNamespaces (labelSelector cfg) #
     GetConfigMap (configMapNamespace cfg) (configMapName cfg) #
     UpdateConfigMap (configMapNamespace cfg)
        (cm\<lparr>cm_data := Some (m(watchKey cfg \<mapsto> strings_Join (map ns_name items) '',''))\<rparr>) #
     Print ''Restarting main container...'' # Pgrep (mainContainerName cfg) #
        (case pgrep_out w of
           None \<Rightarrow> [Print ''Error getting main container PID'']
         | Some out \<Rightarrow>
             (case strings_Fields out of
                [] \<Rightarrow> [Print ''Error getting main container PID'']
              | pid # rest \<Rightarrow>
                  Kill pid # (if kill_ok w then [] else [Print ''Error sending SIGTERM to main container''])))"
  by (simp add: pass_events_def pass_update_ok [OF assms] kill_result)

lemma calls_at_most_once:
  "lists (pass_events cfg w) \<le> 1 \<and> gets (pass_events cfg w) \<le> 1 \<and> writes (pass_events cfg w) \<le> 1
   \<and> signaler_calls (pass_events cfg w) \<le> 1 \<and> kills (pass_events cfg w) \<le> 1"
proof (cases rule: pass_cases [where w = w and cfg = cfg])
  case (list_fail e)
  then show ?thesis by (simp add: events_list_fail count_defs)
next
  case (create items)
  then show ?thesis by (simp add: events_create count_defs)
next
  case (same items cm)
  then show ?thesis by (simp add: events_same count_defs)
next
  case (nil_data items cm)
  then show ?thesis by (simp add: events_nil_data count_defs)
next
  case (update_fail items cm m e)
  then show ?thesis by (simp add: events_update_fail count_defs)
next
  case (update_ok items cm m)
  then show ?thesis by (simp add: events_update_ok count_defs split: option.splits list.splits)
qed

lemmas world_defs = quiet_world_def calm_world_def named_def stored_ab_def stored_no_data_def
  default_config_def

section \<open>The world after a pass\<close>

lemma outcome_cases:
  "fst (updateConfigMap cfg w) = Panicked \<longleftrightarrow>
   (\<exists>items cm. namespaces w = Inr items \<and> get_fault w = None \<and> stored w = Some cm \<and>
      data_get (cm_data cm) (watchKey cfg) \<noteq> strings_Join (map ns_name items) '','' \<and>
      cm_data cm = None)"
proof (cases rule: pass_cases [where w = w and cfg = cfg])
  case (list_fail e)
  then show ?thesis by (simp add: pass_list_fail)
next
  case (create items)
  then show ?thesis by (auto simp: pass_create)
next
  case (same items cm)
  then show ?thesis by (simp add: pass_same)
next
  case (nil_data items cm)
  then show ?thesis by (simp add: pass_nil_data)
next
  case (update_fail items cm m e)
  then show ?thesis by (simp add: pass_update_fail)
next
  case (update_ok items cm m)
  then show ?thesis by (simp add: pass_update_ok)
qed

lemma outcome_returned:
  "fst (updateConfigMap cfg w) = Returned \<longleftrightarrow> fst (updateConfigMap cfg w) \<noteq> Panicked"
  by (cases "fst (updateConfigMap cfg w)") simp_all

lemma returns_with_data:
  "stored w = Some cm \<Longrightarrow> cm_data cm = Some m \<Longrightarrow> fst (updateConfigMap cfg w) = Returned"
  by (simp add: outcome_returned outcome_cases)

lemma returns_when_absent:
  "stored w = None \<Longrightarrow> fst (updateConfigMap cfg w) = Returned"
  by (simp add: outcome_returned outcome_cases)

lemma pass_keeps:
  "namespaces (snd (updateConfigMap cfg w)) = namespaces w \<and>
   get_fault (snd (updateConfigMap cfg w)) = get_fault w \<and>
   create_fault (snd (updateConfigMap cfg w)) = create_fault w \<and>
   update_fault (snd (updateConfigMap cfg w)) = update_fault w \<and>
   pgrep_out (snd (updateConfigMap cfg w)) = pgrep_out w \<and>
   kill_ok (snd (updateConfigMap cfg w)) = kill_ok w"
proof (cases rule: pass_cases [where w = w and cfg = cfg])
  case (list_fail e)
  then show ?thesis by (simp add: pass_list_fail)
next
  case (create items)
  then show ?thesis by (simp add: pass_create create_result)
next
  case (same items cm)
  then show ?thesis by (simp add: pass_same)
next
  case (nil_data items cm)
  then show ?thesis by (simp add: pass_nil_data)
next
  case (update_fail items cm m e)
  then show ?thesis by (simp add: pass_update_fail)
next
  case (update_ok items cm m)
  then show ?thesis by (simp add: pass_update_ok kill_result)
qed

lemma stored_after_create:
  assumes "namespaces w = Inr items" "get_fault w \<noteq> None \<or> stored w = None"
  shows "stored (snd (updateConfigMap cfg w)) =
     (if create_fault w = None \<and> stored w = None
      then Some (new_configmap cfg (strings_Join (map ns_name items) '','')) else stored w)"
  by (simp add: pass_create [OF assms] create_result)

lemma stored_after_update_ok:
  assumes "namespaces w = Inr items" "get_fault w = None" "stored w = Some cm"
    "data_get (cm_data cm) (watchKey cfg) \<noteq> strings_Join (map ns_name items) '',''"
    "cm_data cm = Some m" "update_fault w = None"
  shows "stored (snd (updateConfigMap cfg w)) =
     Some (cm\<lparr>cm_data := Some (m(watchKey cfg \<mapsto> strings_Join (map ns_name items) '',''))\<rparr>)"
  by (simp add: pass_update_ok [OF assms] kill_result)

lemma stored_after_update_fail:
  assumes "namespaces w = Inr items" "get_fault w = None" "stored w = Some cm"
    "data_get (cm_data cm) (watchKey cfg) \<noteq> strings_Join (map ns_name items) '',''"
    "cm_data cm = Some m" "update_fault w = Some e"
  shows "stored (snd (updateConfigMap cfg w)) = stored w"
  by (simp add: pass_update_fail [OF assms])

lemma stored_after_same:
  assumes "namespaces w = Inr items" "get_fault w = None" "stored w = Some cm"
    "data_get (cm_data cm) (watchKey cfg) = strings_Join (map ns_name items) '',''"
  shows "stored (snd (updateConfigMap cfg w)) = stored w"
  by (simp add: pass_same [OF assms])

section \<open>Values read and written\<close>

lemma data_get_new: "data_get (cm_data (new_configmap cfg v)) (watchKey cfg) = v"
  by (simp add: new_configmap_def data_get_def)

lemma data_get_upd: "data_get (Some (m(k \<mapsto> v))) k = v"
  by (simp add: data_get_def)

lemma stored_value_Some:
  "stored_value cfg w = Some v \<longleftrightarrow> (\<exists>cm. stored w = Some cm \<and> data_get (cm_data cm) (watchKey cfg) = v)"
  by (auto simp: stored_value_def)

lemma noop_events:
  assumes "namespaces w = Inr items" "get_fault w = None"
    "stored_value cfg w = Some (strings_Join (map ns_name items) '','')"
  shows "pass_events cfg w =
     [ListNamespaces (labelSelector cfg), GetConfigMap (configMapNamespace cfg) (configMapName cfg)]"
proof -
  from assms(3) obtain cm where "stored w = Some cm"
    "data_get (cm_data cm) (watchKey cfg) = strings_Join (map ns_name items) '',''"
    by (auto simp: stored_value_Some)
  with assms(1,2) show ?thesis by (simp add: events_same)
qed

lemma written_values_pass:
  assumes "namespaces w = Inr items"
  shows "written_values (watchKey cfg) (pass_events cfg w) = [] \<or>
         written_values (watchKey cfg) (pass_events cfg w) = [strings_Join (map ns_name items) '','']"
proof (cases rule: pass_cases [where w = w and cfg = cfg])
  case (list_fail e)
  with assms show ?thesis by simp
next
  case (create items')
  with assms have "items' = items" by simp
  with create show ?thesis by (simp add: events_create data_get_new)
next
  case (same items' cm)
  then show ?thesis by (simp add: events_same)
next
  case (nil_data items' cm)
  then show ?thesis by (simp add: events_nil_data)
next
  case (update_fail items' cm m e)
  with assms have "items' = items" by simp
  with update_fail show ?thesis by (simp add: events_update_fail data_get_upd)
next
  case (update_ok items' cm m)
  with assms have "items' = items" by simp
  with update_ok show ?thesis
    by (simp add: events_update_ok data_get_upd split: option.splits list.splits)
qed

section \<open>Two passes in a row\<close>

lemma second_pass_sees_value:
  assumes "namespaces w = Inr items" "get_fault w = None" "create_fault w = None" "update_fault w = None"
    "fst (updateConfigMap cfg w) = Returned"
  shows "stored_value cfg (snd (updateConfigMap cfg w)) = Some (strings_Join (map ns_name items) '','')"
proof (cases rule: pass_cases [where w = w and cfg = cfg])
  case (list_fail e)
  with assms show ?thesis by simp
next
  case (create items')
  with assms have "items' = items" "stored w = None" by simp_all
  with create assms show ?thesis
    by (simp add: stored_value_def stored_after_create data_get_new)
next
  case (same items' cm)
  with assms have "items' = items" by simp
  with same show ?thesis
    by (simp add: stored_value_def stored_after_same)
next
  case (nil_data items' cm)
  with assms(5) show ?thesis by (simp add: pass_nil_data)
next
  case (update_fail items' cm m e)
  with assms show ?thesis by simp
next
  case (update_ok items' cm m)
  with assms have "items' = items" by simp
  with update_ok show ?thesis
    by (simp add: stored_value_def stored_after_update_ok data_get_upd)
qed

lemma first_pass_writes:
  assumes "namespaces w = Inr items" "get_fault w = None" "create_fault w = None" "update_fault w = None"
    "fst (updateConfigMap cfg w) = Returned"
  shows "writes (pass_events cfg w) =
     (if stored_value cfg w = Some (strings_Join (map ns_name items) '','') then 0 else 1)"
proof (cases rule: pass_cases [where w = w and cfg = cfg])
  case (list_fail e)
  with assms show ?thesis by simp
next
  case (create items')
  with assms have "items' = items" "stored w = None" by simp_all
  with create assms show ?thesis
    by (simp add: stored_value_def events_create count_defs)
next
  case (same items' cm)
  with assms have "items' = items" by simp
  with same show ?thesis
    by (simp add: stored_value_def events_same count_defs)
next
  case (nil_data items' cm)
  with assms(5) show ?thesis by (simp add: pass_nil_data)
next
  case (update_fail items' cm m e)
  with assms show ?thesis by simp
next
  case (update_ok items' cm m)
  with assms have "items' = items" by simp
  with update_ok show ?thesis
    by (simp add: stored_value_def events_update_ok count_defs split: option.splits list.splits)
qed

section \<open>Passes in the concrete worlds\<close>

lemma calm_facts:
  "namespaces (calm_world items st p k) = Inr items"
  "stored (calm_world items st p k) = st"
  "get_fault (calm_world items st p k) = None"
  "create_fault (calm_world items st p k) = None"
  "update_fault (calm_world items st p k) = None"
  "pgrep_out (calm_world items st p k) = p"
  "kill_ok (calm_world items st p k) = k"
  by (simp_all add: calm_world_def)

lemma members_become_facts:
  "namespaces (members_become items w) = Inr items"
  "stored (members_become items w) = stored w"
  "get_fault (members_become items w) = get_fault w"
  "create_fault (members_become items w) = create_fault w"
  "update_fault (members_become items w) = update_fault w"
  "pgrep_out (members_become items w) = pgrep_out w"
  "kill_ok (members_become items w) = kill_ok w"
  by (simp_all add: members_become_def)

lemma join_ab: "strings_Join (map ns_name [named ''a'', named ''b'']) '','' = ''a,b''"
  by (simp add: named_def)

lemma join_ba: "strings_Join (map ns_name [named ''b'', named ''a'']) '','' = ''b,a''"
  by (simp add: named_def)

lemma stored_ab_value: "data_get (cm_data stored_ab) (watchKey default_config) = ''a,b''"
  by (simp add: stored_ab_def default_config_def data_get_def)

lemma stored_ab_data:
  "cm_data stored_ab = Some [''WATCH_NAMESPACE'' \<mapsto> ''a,b'', ''OTHER'' \<mapsto> ''x'']"
  by (simp add: stored_ab_def)

lemma stored_ba_value: "data_get (cm_data stored_ba) (watchKey default_config) = ''b,a''"
  by (simp add: stored_ba_def default_config_def data_get_def)

lemma fields_42n: "strings_Fields [CHR ''4'', CHR ''2'', CHR 0x0A] = [''42'']"
  by (simp add: strings_Fields_def is_space_def)

lemma calm_absent_events:
  "pass_events cfg (calm_world items None p k) =
     [ListNamespaces (labelSelector cfg),
      GetConfigMap (configMapNamespace cfg) (configMapName cfg),
      CreateConfigMap (configMapNamespace cfg) (new_configmap cfg (strings_Join (map ns_name items) '',''))]"
  using events_create [of "calm_world items None p k" items cfg]
  by (simp add: calm_world_def)

lemma calm_absent_stored:
  "stored (snd (updateConfigMap cfg (calm_world items None p k))) =
     Some (new_configmap cfg (strings_Join (map ns_name items) '',''))"
  using stored_after_create [of "calm_world items None p k" items cfg]
  by (simp add: calm_facts)

lemma calm_reordered_events:
  "pass_events default_config (calm_world [named ''b'', named ''a''] (Some stored_ab) p k) =
     ListNamespaces ''foo=bar'' #
     GetConfigMap ''vault'' ''watch-namespace-config'' #
     UpdateConfigMap ''vault'' stored_ba #
     Print ''Restarting main container...'' #
     Pgrep ''main-container'' #
     (case p of
        None \<Rightarrow> [Print ''Error getting main container PID'']
      | Some out \<Rightarrow>
          (case strings_Fields out of
             [] \<Rightarrow> [Print ''Error getting main container PID'']
           | pid # rest \<Rightarrow>
               Kill pid # (if k then [] else [Print ''Error sending SIGTERM to main container''])))"
proof -
  let ?w = "calm_world [named ''b'', named ''a''] (Some stored_ab) p k"
  have a: "namespaces ?w = Inr [named ''b'', named ''a'']" "get_fault ?w = None"
    "stored ?w = Some stored_ab" "update_fault ?w = None"
    by (simp_all add: calm_world_def)
  have b: "data_get (cm_data stored_ab) (watchKey default_config)
      \<noteq> strings_Join (map ns_name [named ''b'', named ''a'']) '',''"
    by (simp add: stored_ab_value named_def)
  have c: "stored_ab\<lparr>cm_data := Some ([''WATCH_NAMESPACE'' \<mapsto> ''a,b'', ''OTHER'' \<mapsto> ''x'']
            (watchKey default_config \<mapsto> strings_Join (map ns_name [named ''b'', named ''a'']) '',''))\<rparr>
        = stored_ba"
    by (simp add: stored_ba_def default_config_def named_def fun_upd_twist)
  have p: "pgrep_out ?w = p" "kill_ok ?w = k"
    by (simp_all add: calm_world_def)
  show ?thesis
    unfolding events_update_ok [OF a(1-3) b stored_ab_data a(4)] c p
    by (simp add: default_config_def)
qed

lemma calm_reordered_updates:
  "updates (pass_events default_config (calm_world [named ''b'', named ''a''] (Some stored_ab) p k)) = 1"
  by (simp add: calm_reordered_events updates_def split: option.splits list.splits)

lemma quiet_reordered_events:
  "pass_events default_config (quiet_world [named ''b'', named ''a''] (Some stored_ab)) =
     [ListNamespaces ''foo=bar'',
      GetConfigMap ''vault'' ''watch-namespace-config'',
      UpdateConfigMap ''vault'' stored_ba,
      Print ''Restarting main container...'',
      Pgrep ''main-container'',
      Kill ''42'']"
  by (simp add: quiet_world_def calm_reordered_events fields_42n)

text \<open>A created object, then a pass with another listing: an update and a signal.\<close>

lemma after_create_update_events:
  assumes "v \<noteq> strings_Join (map ns_name items') '',''"
    "stored w = Some (new_configmap cfg v)" "get_fault w = None" "update_fault w = None"
  shows "pass_events cfg (members_become items' w) =
     ListNamespaces (labelSelector cfg) #
     GetConfigMap (configMapNamespace cfg) (configMapName cfg) #
     UpdateConfigMap (configMapNamespace cfg)
        ((new_configmap cfg v)\<lparr>cm_data := Some ([watchKey cfg \<mapsto> v]
            (watchKey cfg \<mapsto> strings_Join (map ns_name items') '',''))\<rparr>) #
     Print ''Restarting main container...'' # Pgrep (mainContainerName cfg) #
        (case pgrep_out w of
           None \<Rightarrow> [Print ''Error getting main container PID'']
         | Some out \<Rightarrow>
             (case strings_Fields out of
                [] \<Rightarrow> [Print ''Error getting main container PID'']
              | pid # rest \<Rightarrow>
                  Kill pid # (if kill_ok w then [] else [Print ''Error sending SIGTERM to main container''])))"
proof -
  let ?w = "members_become items' w"
  have a: "namespaces ?w = Inr items'" "get_fault ?w = None" "stored ?w = Some (new_configmap cfg v)"
    "update_fault ?w = None"
    using assms by (simp_all add: members_become_facts)
  have b: "data_get (cm_data (new_configmap cfg v)) (watchKey cfg) \<noteq> strings_Join (map ns_name items') '',''"
    using assms(1) by (simp add: data_get_new)
  have c: "cm_data (new_configmap cfg v) = Some [watchKey cfg \<mapsto> v]"
    by (simp add: new_configmap_def)
  show ?thesis
    using events_update_ok [OF a(1-3) b c a(4)] by (simp add: members_become_facts)
qed

lemma after_create_update_stored:
  assumes "v \<noteq> strings_Join (map ns_name items') '',''"
    "stored w = Some (new_configmap cfg v)" "get_fault w = None" "update_fault w = None"
  shows "stored_value cfg (snd (updateConfigMap cfg (members_become items' w))) =
     Some (strings_Join (map ns_name items') '','')"
proof -
  let ?w = "members_become items' w"
  have a: "namespaces ?w = Inr items'" "get_fault ?w = None" "stored ?w = Some (new_configmap cfg v)"
    "update_fault ?w = None"
    using assms by (simp_all add: members_become_facts)
  have b: "data_get (cm_data (new_configmap cfg v)) (watchKey cfg) \<noteq> strings_Join (map ns_name items') '',''"
    using assms(1) by (simp add: data_get_new)
  have c: "cm_data (new_configmap cfg v) = Some [watchKey cfg \<mapsto> v]"
    by (simp add: new_configmap_def)
  show ?thesis
    by (simp add: stored_value_def stored_after_update_ok [OF a(1-3) b c a(4)] data_get_def)
qed

section \<open>The computed value\<close>

text \<open>
  Claim C1, as the code has it. The value a pass computes is the comma-join of the
  listed names in the order the lister returns them: every object the pass hands to
  Create or Update holds exactly that join at the watched key, so the value is a
  function of the listed sequence. When the stored value is \<open>a,b\<close> and the members are
  listed as a, b, the computed value is \<open>a,b\<close> and the pass performs no write, no process
  lookup and no signal.
\<close>

theorem value_follows_listing_order:
  assumes "namespaces w = Inr items"
  shows "(\<forall>v \<in> set (written_values (watchKey cfg) (pass_events cfg w)).
            v = strings_Join (map ns_name items) '','') \<and>
         (map ns_name items = [''a'', ''b''] \<and> get_fault w = None \<and>
          stored_value cfg w = Some ''a,b'' \<longrightarrow>
            strings_Join (map ns_name items) '','' = ''a,b'' \<and>
            writes (pass_events cfg w) = 0 \<and> signaler_calls (pass_events cfg w) = 0 \<and>
            kills (pass_events cfg w) = 0)"
proof -
  have a: "\<forall>v \<in> set (written_values (watchKey cfg) (pass_events cfg w)).
            v = strings_Join (map ns_name items) '',''"
    using written_values_pass [OF assms, of cfg] by auto
  have b: "map ns_name items = [''a'', ''b''] \<and> get_fault w = None \<and>
          stored_value cfg w = Some ''a,b'' \<longrightarrow>
            strings_Join (map ns_name items) '','' = ''a,b'' \<and>
            writes (pass_events cfg w) = 0 \<and> signaler_calls (pass_events cfg w) = 0 \<and>
            kills (pass_events cfg w) = 0"
  proof (intro impI)
    assume h: "map ns_name items = [''a'', ''b''] \<and> get_fault w = None \<and>
          stored_value cfg w = Some ''a,b''"
    then have j: "strings_Join (map ns_name items) '','' = ''a,b''" by simp
    with h assms have "pass_events cfg w =
       [ListNamespaces (labelSelector cfg), GetConfigMap (configMapNamespace cfg) (configMapName cfg)]"
      by (simp add: noop_events)
    with j show "strings_Join (map ns_name items) '','' = ''a,b'' \<and>
            writes (pass_events cfg w) = 0 \<and> signaler_calls (pass_events cfg w) = 0 \<and>
            kills (pass_events cfg w) = 0"
      by (simp add: count_defs)
  qed
  from a b show ?thesis by blast
qed

theorem value_follows_listing_order_witness:
  "namespaces (quiet_world [named ''a'', named ''b''] (Some stored_ab)) = Inr [named ''a'', named ''b''] \<and>
   map ns_name [named ''a'', named ''b''] = [''a'', ''b''] \<and>
   stored_value default_config (quiet_world [named ''a'', named ''b''] (Some stored_ab)) = Some ''a,b'' \<and>
   writes (pass_events default_config (quiet_world [named ''a'', named ''b''] (Some stored_ab))) = 0 \<and>
   signaler_calls (pass_events default_config (quiet_world [named ''a'', named ''b''] (Some stored_ab))) = 0 \<and>
   kills (pass_events default_config (quiet_world [named ''a'', named ''b''] (Some stored_ab))) = 0"
proof -
  let ?w = "quiet_world [named ''a'', named ''b''] (Some stored_ab)"
  have n: "namespaces ?w = Inr [named ''a'', named ''b'']" and g: "get_fault ?w = None"
    by (simp_all add: quiet_world_def calm_world_def)
  have m: "map ns_name [named ''a'', named ''b''] = [''a'', ''b'']"
    by (simp add: named_def)
  have v: "stored_value default_config ?w = Some ''a,b''"
    by (simp add: stored_value_def quiet_world_def calm_world_def stored_ab_value)
  from value_follows_listing_order [OF n, of default_config] m g v
  have "writes (pass_events default_config ?w) = 0 \<and>
        signaler_calls (pass_events default_config ?w) = 0 \<and>
        kills (pass_events default_config ?w) = 0"
    by blast
  with n m v show ?thesis by simp
qed

text \<open>
  The claim as stated wants the value independent of the listing order. There is no
  sorting in \<^verbatim>\<open>getFilteredNamespaces\<close> or \<^verbatim>\<open>updateConfigMap\<close>: with the stored value \<open>a,b\<close>
  and the members listed as b, a, the pass writes \<open>b,a\<close> with an Update and signals.
\<close>

theorem reordered_listing_is_written:
  "stored_value default_config (quiet_world [named ''b'', named ''a''] (Some stored_ab)) = Some ''a,b'' \<and>
   written_values (watchKey default_config)
     (pass_events default_config (quiet_world [named ''b'', named ''a''] (Some stored_ab))) = [''b,a''] \<and>
   updates (pass_events default_config (quiet_world [named ''b'', named ''a''] (Some stored_ab))) = 1 \<and>
   signaler_calls (pass_events default_config (quiet_world [named ''b'', named ''a''] (Some stored_ab))) = 1 \<and>
   kills (pass_events default_config (quiet_world [named ''b'', named ''a''] (Some stored_ab))) = 1"
  by (simp add: quiet_reordered_events count_defs stored_ba_value)
     (simp add: stored_value_def quiet_world_def calm_world_def stored_ab_value)

section \<open>Get failures and creation\<close>

text \<open>
  Claim C2. A Create is attempted only when Get reports that the object does not exist;
  any other Get failure aborts the pass without a create or an update.

  The code tests only \<^verbatim>\<open>err != nil\<close> after Get, under the comment "If ConfigMap doesn't
  exist, create it". Here the object exists, Get fails with a transient error, and the
  pass calls Create all the same.
\<close>

theorem get_failure_creates:
  "stored ((quiet_world [named ''a'', named ''b''] (Some stored_ab))\<lparr>get_fault := Some Transient\<rparr>) = Some stored_ab \<and>
   creates (pass_events default_config
     ((quiet_world [named ''a'', named ''b''] (Some stored_ab))\<lparr>get_fault := Some Transient\<rparr>)) = 1"
proof -
  let ?w = "(quiet_world [named ''a'', named ''b''] (Some stored_ab))\<lparr>get_fault := Some Transient\<rparr>"
  have a: "namespaces ?w = Inr [named ''a'', named ''b'']" "get_fault ?w \<noteq> None \<or> stored ?w = None"
    by (simp_all add: world_defs)
  show ?thesis
    using events_create [OF a, of default_config]
    by (simp add: count_defs) (simp add: world_defs)
qed

section \<open>Running twice\<close>

text \<open>
  Claim C3, as the code has it. Let both passes receive the same listing, in the same
  order, let no store call fail, and let the first pass return. Then the second pass
  performs no write and returns; the first pass performs exactly one write (a Create
  when the object is absent, an Update when its value differs), unless the stored value
  already equals the computed one, in which case it performs none either.
\<close>

theorem second_pass_writes_nothing:
  assumes "namespaces w = Inr items" "get_fault w = None" "create_fault w = None" "update_fault w = None"
    "fst (updateConfigMap cfg w) = Returned"
  shows "writes (pass_events cfg (snd (updateConfigMap cfg w))) = 0 \<and>
         fst (updateConfigMap cfg (snd (updateConfigMap cfg w))) = Returned \<and>
         writes (pass_events cfg w) =
           (if stored_value cfg w = Some (strings_Join (map ns_name items) '','') then 0 else 1)"
proof -
  let ?w1 = "snd (updateConfigMap cfg w)"
  have n: "namespaces ?w1 = Inr items" and g: "get_fault ?w1 = None"
    using assms(1,2) by (simp_all add: pass_keeps)
  have v: "stored_value cfg ?w1 = Some (strings_Join (map ns_name items) '','')"
    by (rule second_pass_sees_value [OF assms])
  then obtain cm where s: "stored ?w1 = Some cm"
    "data_get (cm_data cm) (watchKey cfg) = strings_Join (map ns_name items) '',''"
    by (auto simp: stored_value_Some)
  have 1: "writes (pass_events cfg ?w1) = 0"
    by (simp add: noop_events [OF n g v] count_defs)
  have 2: "fst (updateConfigMap cfg ?w1) = Returned"
    by (simp add: pass_same [OF n g s])
  from 1 2 first_pass_writes [OF assms] show ?thesis by simp
qed

theorem second_pass_writes_nothing_witness:
  "fst (updateConfigMap default_config (quiet_world [named ''a'', named ''b''] None)) = Returned \<and>
   stored_value default_config (quiet_world [named ''a'', named ''b''] None) = None \<and>
   writes (pass_events default_config (quiet_world [named ''a'', named ''b''] None)) = 1 \<and>
   writes (pass_events default_config
     (snd (updateConfigMap default_config (quiet_world [named ''a'', named ''b''] None)))) = 0 \<and>
   fst (updateConfigMap default_config
     (snd (updateConfigMap default_config (quiet_world [named ''a'', named ''b''] None)))) = Returned"
proof -
  let ?a = "quiet_world [named ''a'', named ''b''] None"
  have f: "namespaces ?a = Inr [named ''a'', named ''b'']" "get_fault ?a = None"
    "create_fault ?a = None" "update_fault ?a = None"
    by (simp_all add: quiet_world_def calm_facts)
  have s: "stored ?a = None" by (simp add: quiet_world_def calm_facts)
  have r: "fst (updateConfigMap default_config ?a) = Returned"
    by (rule returns_when_absent [OF s])
  have v: "stored_value default_config ?a = None"
    by (simp add: stored_value_def s)
  from second_pass_writes_nothing [OF f r] r v show ?thesis by simp
qed

text \<open>
  The claim as stated counts exactly one write for every membership set. With the
  store already holding \<open>a,b\<close> and the members listed as a, b, the two passes write
  nothing. With the object absent and the same two members listed as a, b in the first
  pass and as b, a in the second, each pass writes: two writes.
\<close>

theorem twice_not_exactly_one_write:
  "writes (pass_events default_config (quiet_world [named ''a'', named ''b''] (Some stored_ab))) +
   writes (pass_events default_config
     (snd (updateConfigMap default_config (quiet_world [named ''a'', named ''b''] (Some stored_ab))))) = 0 \<and>
   writes (pass_events default_config (quiet_world [named ''a'', named ''b''] None)) +
   writes (pass_events default_config
     (members_become [named ''b'', named ''a'']
        (snd (updateConfigMap default_config (quiet_world [named ''a'', named ''b''] None))))) = 2"
proof -
  let ?s = "quiet_world [named ''a'', named ''b''] (Some stored_ab)"
  let ?a = "quiet_world [named ''a'', named ''b''] None"
  let ?a1 = "snd (updateConfigMap default_config ?a)"
  have sf: "namespaces ?s = Inr [named ''a'', named ''b'']" "get_fault ?s = None"
    "stored ?s = Some stored_ab"
    by (simp_all add: quiet_world_def calm_facts)
  have sv: "data_get (cm_data stored_ab) (watchKey default_config)
      = strings_Join (map ns_name [named ''a'', named ''b'']) '',''"
    by (simp add: stored_ab_value named_def)
  have s1: "writes (pass_events default_config ?s) = 0"
    by (simp add: events_same [OF sf sv] count_defs)
  have "snd (updateConfigMap default_config ?s) =
      ?s\<lparr>trace := trace ?s @ [ListNamespaces (labelSelector default_config),
          GetConfigMap (configMapNamespace default_config) (configMapName default_config)]\<rparr>"
    by (simp add: pass_same [OF sf sv])
  then have sf': "namespaces (snd (updateConfigMap default_config ?s)) = Inr [named ''a'', named ''b'']"
    "get_fault (snd (updateConfigMap default_config ?s)) = None"
    "stored (snd (updateConfigMap default_config ?s)) = Some stored_ab"
    using sf by simp_all
  have s2: "writes (pass_events default_config (snd (updateConfigMap default_config ?s))) = 0"
    by (simp add: events_same [OF sf' sv] count_defs)
  have a1: "writes (pass_events default_config ?a) = 1"
    by (simp add: quiet_world_def calm_absent_events count_defs)
  have st: "stored ?a1 = Some (new_configmap default_config ''a,b'')"
    using calm_absent_stored [of default_config "[named ''a'', named ''b'']"]
    by (simp add: quiet_world_def named_def)
  have g: "get_fault ?a1 = None" and u: "update_fault ?a1 = None"
    by (simp_all add: pass_keeps quiet_world_def calm_facts)
  have ne: "''a,b'' \<noteq> strings_Join (map ns_name [named ''b'', named ''a'']) '',''"
    by (simp add: named_def)
  have a2: "writes (pass_events default_config (members_become [named ''b'', named ''a''] ?a1)) = 1"
    unfolding after_create_update_events [OF ne st g u]
    by (simp add: count_defs split: option.splits list.splits)
  from s1 s2 a1 a2 show ?thesis by simp
qed

section \<open>Update and signal\<close>

text \<open>
  Claim C4. In every pass, an Update call that succeeds is followed by exactly one
  invocation of the signaler, and a pass in which the stored value already equals the
  computed value never invokes it.

  A pass calls Update only on an object that Get returned, so the call succeeds
  exactly when no failure is injected into it. An invocation of the signaler is a
  \<open>Pgrep\<close> event.
\<close>

theorem update_then_signal:
  "(updates (pass_events cfg w) = 1 \<and> update_fault w = None \<longrightarrow>
      signaler_calls (pass_events cfg w) = 1 \<and>
      (\<exists>pre cm' post.
          pass_events cfg w = pre @ UpdateConfigMap (configMapNamespace cfg) cm' # post \<and>
          signaler_calls pre = 0 \<and> signaler_calls post = 1)) \<and>
   (namespaces w = Inr items \<and> get_fault w = None \<and>
    stored_value cfg w = Some (strings_Join (map ns_name items) '','') \<longrightarrow>
      writes (pass_events cfg w) = 0 \<and> signaler_calls (pass_events cfg w) = 0 \<and>
      kills (pass_events cfg w) = 0)"
proof -
  have a: "updates (pass_events cfg w) = 1 \<and> update_fault w = None \<longrightarrow>
      signaler_calls (pass_events cfg w) = 1 \<and>
      (\<exists>pre cm' post.
          pass_events cfg w = pre @ UpdateConfigMap (configMapNamespace cfg) cm' # post \<and>
          signaler_calls pre = 0 \<and> signaler_calls post = 1)"
  proof (cases rule: pass_cases [where w = w and cfg = cfg])
    case (list_fail e)
    then show ?thesis by (simp add: events_list_fail count_defs)
  next
    case (create items)
    then show ?thesis by (simp add: events_create count_defs)
  next
    case (same items cm)
    then show ?thesis by (simp add: events_same count_defs)
  next
    case (nil_data items cm)
    then show ?thesis by (simp add: events_nil_data count_defs)
  next
    case (update_fail items cm m e)
    then show ?thesis by simp
  next
    case (update_ok items cm m)
    let ?pre = "[ListNamespaces (labelSelector cfg),
                 GetConfigMap (configMapNamespace cfg) (configMapName cfg)]"
    let ?cm' = "cm\<lparr>cm_data := Some (m(watchKey cfg \<mapsto> strings_Join (map ns_name items) '',''))\<rparr>"
    obtain post where ev: "pass_events cfg w = ?pre @ UpdateConfigMap (configMapNamespace cfg) ?cm' # post"
      and post: "signaler_calls post = 1"
      using events_update_ok [OF update_ok]
      by (simp add: signaler_calls_def split: option.splits list.splits)
    have pre: "signaler_calls ?pre = 0" by (simp add: signaler_calls_def)
    have "signaler_calls (pass_events cfg w) = 1"
      using post by (simp add: ev signaler_calls_def)
    with ev pre post show ?thesis by blast
  qed
  have b: "namespaces w = Inr items \<and> get_fault w = None \<and>
    stored_value cfg w = Some (strings_Join (map ns_name items) '','') \<longrightarrow>
      writes (pass_events cfg w) = 0 \<and> signaler_calls (pass_events cfg w) = 0 \<and>
      kills (pass_events cfg w) = 0"
    by (simp add: noop_events count_defs)
  from a b show ?thesis by blast
qed

theorem update_then_signal_witness:
  "updates (pass_events default_config (quiet_world [named ''b'', named ''a''] (Some stored_ab))) = 1 \<and>
   update_fault (quiet_world [named ''b'', named ''a''] (Some stored_ab)) = None \<and>
   signaler_calls (pass_events default_config (quiet_world [named ''b'', named ''a''] (Some stored_ab))) = 1 \<and>
   stored_value default_config (quiet_world [named ''a'', named ''b''] (Some stored_ab)) = Some ''a,b'' \<and>
   writes (pass_events default_config (quiet_world [named ''a'', named ''b''] (Some stored_ab))) = 0 \<and>
   signaler_calls (pass_events default_config (quiet_world [named ''a'', named ''b''] (Some stored_ab))) = 0 \<and>
   kills (pass_events default_config (quiet_world [named ''a'', named ''b''] (Some stored_ab))) = 0"
proof -
  let ?up = "quiet_world [named ''b'', named ''a''] (Some stored_ab)"
  let ?same = "quiet_world [named ''a'', named ''b''] (Some stored_ab)"
  have u: "updates (pass_events default_config ?up) = 1"
    by (simp add: quiet_world_def calm_reordered_updates)
  have f: "update_fault ?up = None"
    by (simp add: quiet_world_def calm_world_def)
  have n: "namespaces ?same = Inr [named ''a'', named ''b'']" "get_fault ?same = None"
    by (simp_all add: quiet_world_def calm_world_def)
  have v: "stored_value default_config ?same = Some ''a,b''"
    by (simp add: stored_value_def quiet_world_def calm_world_def stored_ab_value)
  have j: "strings_Join (map ns_name [named ''a'', named ''b'']) '','' = ''a,b''"
    by (rule join_ab)
  from update_then_signal [where w = ?up and cfg = default_config] u f
  have 1: "signaler_calls (pass_events default_config ?up) = 1" by blast
  from update_then_signal [where w = ?same and cfg = default_config and items = "[named ''a'', named ''b'']"]
    n v j
  have 2: "writes (pass_events default_config ?same) = 0 \<and>
      signaler_calls (pass_events default_config ?same) = 0 \<and>
      kills (pass_events default_config ?same) = 0" by simp
  from u f v 1 2 show ?thesis by simp
qed

section \<open>Creation\<close>

text \<open>
  Claim C5. In a pass whose Get finds that the config object does not exist, there is
  exactly one create call, no update call, and the signaler is not invoked (no process
  lookup, no signal).
\<close>

theorem create_when_absent:
  assumes "gets (pass_events cfg w) = 1" "get_fault w = None" "stored w = None"
  shows "creates (pass_events cfg w) = 1 \<and> updates (pass_events cfg w) = 0 \<and>
         signaler_calls (pass_events cfg w) = 0 \<and> kills (pass_events cfg w) = 0"
proof (cases rule: pass_cases [where w = w and cfg = cfg])
  case (list_fail e)
  with assms(1) show ?thesis by (simp add: events_list_fail count_defs)
next
  case (create items)
  then show ?thesis by (simp add: events_create count_defs)
qed (use assms in simp_all)

theorem create_when_absent_witness:
  "gets (pass_events default_config (quiet_world [named ''a''] None)) = 1 \<and>
   get_fault (quiet_world [named ''a''] None) = None \<and>
   stored (quiet_world [named ''a''] None) = None \<and>
   creates (pass_events default_config (quiet_world [named ''a''] None)) = 1 \<and>
   updates (pass_events default_config (quiet_world [named ''a''] None)) = 0 \<and>
   signaler_calls (pass_events default_config (quiet_world [named ''a''] None)) = 0 \<and>
   kills (pass_events default_config (quiet_world [named ''a''] None)) = 0"
proof -
  have g: "gets (pass_events default_config (quiet_world [named ''a''] None)) = 1"
    by (simp add: quiet_world_def calm_absent_events count_defs)
  have f: "get_fault (quiet_world [named ''a''] None) = None"
    and s: "stored (quiet_world [named ''a''] None) = None"
    by (simp_all add: world_defs)
  from create_when_absent [OF g f s] g f s show ?thesis by simp
qed

section \<open>Failures that end a pass\<close>

text \<open>
  Claim C6. A failure of the lister ends the pass before any store call: no Get, no
  write, no signal. A failure of Update (a conflict, a transient error, any error) ends
  the pass without a process lookup or a signal, the pass returns normally, and the
  stored object is as before. Nothing is retried: a pass lists, gets, writes, looks the
  process up and signals at most once each.
\<close>

theorem failures_abort_quietly:
  "(namespaces w = Inl e \<longrightarrow>
      gets (pass_events cfg w) = 0 \<and> writes (pass_events cfg w) = 0 \<and>
      signaler_calls (pass_events cfg w) = 0 \<and> kills (pass_events cfg w) = 0 \<and>
      fst (updateConfigMap cfg w) = Returned) \<and>
   (updates (pass_events cfg w) = 1 \<and> update_fault w = Some e' \<longrightarrow>
      signaler_calls (pass_events cfg w) = 0 \<and> kills (pass_events cfg w) = 0 \<and>
      fst (updateConfigMap cfg w) = Returned \<and>
      stored (snd (updateConfigMap cfg w)) = stored w) \<and>
   lists (pass_events cfg w) \<le> 1 \<and> gets (pass_events cfg w) \<le> 1 \<and>
   writes (pass_events cfg w) \<le> 1 \<and> signaler_calls (pass_events cfg w) \<le> 1 \<and>
   kills (pass_events cfg w) \<le> 1"
proof -
  have a: "namespaces w = Inl e \<longrightarrow>
      gets (pass_events cfg w) = 0 \<and> writes (pass_events cfg w) = 0 \<and>
      signaler_calls (pass_events cfg w) = 0 \<and> kills (pass_events cfg w) = 0 \<and>
      fst (updateConfigMap cfg w) = Returned"
    by (simp add: events_list_fail pass_list_fail count_defs)
  have b: "updates (pass_events cfg w) = 1 \<and> update_fault w = Some e' \<longrightarrow>
      signaler_calls (pass_events cfg w) = 0 \<and> kills (pass_events cfg w) = 0 \<and>
      fst (updateConfigMap cfg w) = Returned \<and>
      stored (snd (updateConfigMap cfg w)) = stored w"
  proof (cases rule: pass_cases [where w = w and cfg = cfg])
    case (list_fail e)
    then show ?thesis by (simp add: events_list_fail count_defs)
  next
    case (create items)
    then show ?thesis by (simp add: events_create count_defs)
  next
    case (same items cm)
    then show ?thesis by (simp add: events_same count_defs)
  next
    case (nil_data items cm)
    then show ?thesis by (simp add: events_nil_data count_defs)
  next
    case (update_fail items cm m e)
    then show ?thesis by (simp add: events_update_fail pass_update_fail count_defs)
  next
    case (update_ok items cm m)
    then show ?thesis by simp
  qed
  from a b calls_at_most_once [of cfg w] show ?thesis by blast
qed

theorem failures_abort_quietly_witness:
  "namespaces ((quiet_world [] None)\<lparr>namespaces := Inl Transient\<rparr>) = Inl Transient \<and>
   gets (pass_events default_config ((quiet_world [] None)\<lparr>namespaces := Inl Transient\<rparr>)) = 0 \<and>
   writes (pass_events default_config ((quiet_world [] None)\<lparr>namespaces := Inl Transient\<rparr>)) = 0 \<and>
   signaler_calls (pass_events default_config ((quiet_world [] None)\<lparr>namespaces := Inl Transient\<rparr>)) = 0 \<and>
   fst (updateConfigMap default_config ((quiet_world [] None)\<lparr>namespaces := Inl Transient\<rparr>)) = Returned \<and>
   updates (pass_events default_config
      ((quiet_world [named ''b'', named ''a''] (Some stored_ab))\<lparr>update_fault := Some Conflict\<rparr>)) = 1 \<and>
   signaler_calls (pass_events default_config
      ((quiet_world [named ''b'', named ''a''] (Some stored_ab))\<lparr>update_fault := Some Conflict\<rparr>)) = 0 \<and>
   kills (pass_events default_config
      ((quiet_world [named ''b'', named ''a''] (Some stored_ab))\<lparr>update_fault := Some Conflict\<rparr>)) = 0 \<and>
   fst (updateConfigMap default_config
      ((quiet_world [named ''b'', named ''a''] (Some stored_ab))\<lparr>update_fault := Some Conflict\<rparr>)) = Returned \<and>
   stored (snd (updateConfigMap default_config
      ((quiet_world [named ''b'', named ''a''] (Some stored_ab))\<lparr>update_fault := Some Conflict\<rparr>))) = Some stored_ab"
proof -
  let ?l = "(quiet_world [] None)\<lparr>namespaces := Inl Transient\<rparr>"
  let ?c = "(quiet_world [named ''b'', named ''a''] (Some stored_ab))\<lparr>update_fault := Some Conflict\<rparr>"
  have l: "namespaces ?l = Inl Transient" by simp
  have a: "namespaces ?c = Inr [named ''b'', named ''a'']" "get_fault ?c = None"
    "stored ?c = Some stored_ab" "update_fault ?c = Some Conflict"
    by (simp_all add: quiet_world_def calm_world_def)
  have b: "data_get (cm_data stored_ab) (watchKey default_config)
      \<noteq> strings_Join (map ns_name [named ''b'', named ''a'']) '',''"
    by (simp add: stored_ab_value named_def)
  have u: "updates (pass_events default_config ?c) = 1"
    unfolding events_update_fail [OF a(1-3) b stored_ab_data a(4)] by (simp add: updates_def)
  from failures_abort_quietly [where w = ?l and e = Transient and cfg = default_config] l
  have 1: "gets (pass_events default_config ?l) = 0 \<and> writes (pass_events default_config ?l) = 0 \<and>
      signaler_calls (pass_events default_config ?l) = 0 \<and> kills (pass_events default_config ?l) = 0 \<and>
      fst (updateConfigMap default_config ?l) = Returned" by blast
  from failures_abort_quietly [where w = ?c and e' = Conflict and cfg = default_config] u a(4)
  have 2: "signaler_calls (pass_events default_config ?c) = 0 \<and> kills (pass_events default_config ?c) = 0 \<and>
      fst (updateConfigMap default_config ?c) = Returned \<and>
      stored (snd (updateConfigMap default_config ?c)) = stored ?c" by blast
  from l u 1 2 a(3) show ?thesis by simp
qed

section \<open>No companion process\<close>

text \<open>
  Claim C7. When the Update succeeds and the signaler finds no process (\<^verbatim>\<open>pgrep\<close> ends
  with an error, or prints nothing), the pass still returns normally; the error is only
  printed; no signal is sent; nothing follows the Update but the signaler's own steps,
  so the store keeps the object the Update committed, with the computed value.
\<close>

theorem missing_process_keeps_write:
  assumes "updates (pass_events cfg w) = 1" "update_fault w = None"
    "pgrep_out w = None \<or> (\<exists>out. pgrep_out w = Some out \<and> strings_Fields out = [])"
  shows "fst (updateConfigMap cfg w) = Returned \<and>
     kills (pass_events cfg w) = 0 \<and>
     (\<exists>pre cm'.
        pass_events cfg w =
          pre @ [UpdateConfigMap (configMapNamespace cfg) cm',
                 Print ''Restarting main container...'',
                 Pgrep (mainContainerName cfg),
                 Print ''Error getting main container PID''] \<and>
        stored (snd (updateConfigMap cfg w)) = Some cm') \<and>
     (\<exists>items. namespaces w = Inr items \<and>
        stored_value cfg (snd (updateConfigMap cfg w)) = Some (strings_Join (map ns_name items) '',''))"
proof (cases rule: pass_cases [where w = w and cfg = cfg])
  case (list_fail e)
  with assms(1) show ?thesis by (simp add: events_list_fail count_defs)
next
  case (create items)
  with assms(1) show ?thesis by (simp add: events_create count_defs)
next
  case (same items cm)
  with assms(1) show ?thesis by (simp add: events_same count_defs)
next
  case (nil_data items cm)
  with assms(1) show ?thesis by (simp add: events_nil_data count_defs)
next
  case (update_fail items cm m e)
  with assms(2) show ?thesis by simp
next
  case (update_ok items cm m)
  let ?pre = "[ListNamespaces (labelSelector cfg),
               GetConfigMap (configMapNamespace cfg) (configMapName cfg)]"
  let ?cm' = "cm\<lparr>cm_data := Some (m(watchKey cfg \<mapsto> strings_Join (map ns_name items) '',''))\<rparr>"
  have ev: "pass_events cfg w =
      ?pre @ [UpdateConfigMap (configMapNamespace cfg) ?cm',
              Print ''Restarting main container...'',
              Pgrep (mainContainerName cfg),
              Print ''Error getting main container PID'']"
    using events_update_ok [OF update_ok] assms(3) by auto
  have st: "stored (snd (updateConfigMap cfg w)) = Some ?cm'"
    by (rule stored_after_update_ok [OF update_ok])
  have r: "fst (updateConfigMap cfg w) = Returned"
    using update_ok by (simp add: returns_with_data)
  have k: "kills (pass_events cfg w) = 0"
    by (simp add: ev kills_def)
  have v: "stored_value cfg (snd (updateConfigMap cfg w)) = Some (strings_Join (map ns_name items) '','')"
    by (simp add: stored_value_def st data_get_def)
  from ev st r k v update_ok(1) show ?thesis by blast
qed

theorem missing_process_keeps_write_witness:
  "updates (pass_events default_config (calm_world [named ''b'', named ''a''] (Some stored_ab) None True)) = 1 \<and>
   update_fault (calm_world [named ''b'', named ''a''] (Some stored_ab) None True) = None \<and>
   pgrep_out (calm_world [named ''b'', named ''a''] (Some stored_ab) None True) = None \<and>
   fst (updateConfigMap default_config (calm_world [named ''b'', named ''a''] (Some stored_ab) None True)) = Returned \<and>
   kills (pass_events default_config (calm_world [named ''b'', named ''a''] (Some stored_ab) None True)) = 0 \<and>
   stored_value default_config
     (snd (updateConfigMap default_config (calm_world [named ''b'', named ''a''] (Some stored_ab) None True)))
     = Some ''b,a''"
proof -
  let ?w = "calm_world [named ''b'', named ''a''] (Some stored_ab) None True"
  have u: "updates (pass_events default_config ?w) = 1"
    by (rule calm_reordered_updates)
  have f: "update_fault ?w = None" and p: "pgrep_out ?w = None"
    by (simp_all add: calm_world_def)
  have n: "namespaces ?w = Inr [named ''b'', named ''a'']"
    by (simp add: calm_world_def)
  from missing_process_keeps_write [OF u f disjI1 [OF p]]
  have "fst (updateConfigMap default_config ?w) = Returned"
    "kills (pass_events default_config ?w) = 0"
    "\<exists>items. namespaces ?w = Inr items \<and>
        stored_value default_config (snd (updateConfigMap default_config ?w))
          = Some (strings_Join (map ns_name items) '','')"
    by blast+
  with n join_ba u f p show ?thesis by simp
qed

section \<open>From no members to two\<close>

text \<open>
  Claim C8, as the code has it. With no members the computed value is the empty
  string: a first pass with no members and no stored object creates the object with
  the empty value at the watched key and nothing else. A following pass in which the
  lister returns the members in the order a, b calls Update with the value \<open>a,b\<close>,
  invokes the signaler exactly once, and leaves \<open>a,b\<close> stored. This holds for every
  configuration and whatever \<^verbatim>\<open>pgrep\<close> and \<^verbatim>\<open>kill\<close> answer.
\<close>

theorem empty_then_two_members:
  "strings_Join (map ns_name []) '','' = [] \<and>
   pass_events cfg (calm_world [] None p k) =
     [ListNamespaces (labelSelector cfg),
      GetConfigMap (configMapNamespace cfg) (configMapName cfg),
      CreateConfigMap (configMapNamespace cfg)
        \<lparr>cm_name = configMapName cfg, cm_namespace = configMapNamespace cfg,
         cm_resourceVersion = [], cm_data = Some [watchKey cfg \<mapsto> []]\<rparr>] \<and>
   stored (snd (updateConfigMap cfg (calm_world [] None p k))) =
     Some \<lparr>cm_name = configMapName cfg, cm_namespace = configMapNamespace cfg,
           cm_resourceVersion = [], cm_data = Some [watchKey cfg \<mapsto> []]\<rparr> \<and>
   pass_events cfg
     (members_become [named ''a'', named ''b''] (snd (updateConfigMap cfg (calm_world [] None p k)))) =
     ListNamespaces (labelSelector cfg) #
     GetConfigMap (configMapNamespace cfg) (configMapName cfg) #
     UpdateConfigMap (configMapNamespace cfg)
        \<lparr>cm_name = configMapName cfg, cm_namespace = configMapNamespace cfg,
         cm_resourceVersion = [], cm_data = Some [watchKey cfg \<mapsto> ''a,b'']\<rparr> #
     Print ''Restarting main container...'' #
     Pgrep (mainContainerName cfg) #
     (case p of
        None \<Rightarrow> [Print ''Error getting main container PID'']
      | Some out \<Rightarrow>
          (case strings_Fields out of
             [] \<Rightarrow> [Print ''Error getting main container PID'']
           | pid # rest \<Rightarrow>
               Kill pid # (if k then [] else [Print ''Error sending SIGTERM to main container'']))) \<and>
   creates (pass_events cfg
     (members_become [named ''a'', named ''b''] (snd (updateConfigMap cfg (calm_world [] None p k))))) = 0 \<and>
   updates (pass_events cfg
     (members_become [named ''a'', named ''b''] (snd (updateConfigMap cfg (calm_world [] None p k))))) = 1 \<and>
   signaler_calls (pass_events cfg
     (members_become [named ''a'', named ''b''] (snd (updateConfigMap cfg (calm_world [] None p k))))) = 1 \<and>
   stored (snd (updateConfigMap cfg
     (members_become [named ''a'', named ''b''] (snd (updateConfigMap cfg (calm_world [] None p k)))))) =
     Some \<lparr>cm_name = configMapName cfg, cm_namespace = configMapNamespace cfg,
           cm_resourceVersion = [], cm_data = Some [watchKey cfg \<mapsto> ''a,b'']\<rparr>"
proof -
  let ?w1 = "snd (updateConfigMap cfg (calm_world [] None p k))"
  let ?w2 = "members_become [named ''a'', named ''b''] ?w1"
  let ?new = "\<lparr>cm_name = configMapName cfg, cm_namespace = configMapNamespace cfg,
         cm_resourceVersion = [], cm_data = Some [watchKey cfg \<mapsto> []]\<rparr>"
  let ?upd = "\<lparr>cm_name = configMapName cfg, cm_namespace = configMapNamespace cfg,
         cm_resourceVersion = [], cm_data = Some [watchKey cfg \<mapsto> ''a,b'']\<rparr>"
  have new: "new_configmap cfg [] = ?new"
    by (simp add: new_configmap_def)
  have s: "stored ?w1 = Some (new_configmap cfg [])"
    using calm_absent_stored [of cfg "[]" p k] by simp
  have g: "get_fault ?w1 = None" and u: "update_fault ?w1 = None"
    and pk: "pgrep_out ?w1 = p" "kill_ok ?w1 = k"
    by (simp_all add: pass_keeps calm_facts)
  have ne: "[] \<noteq> strings_Join (map ns_name [named ''a'', named ''b'']) '',''"
    by (simp add: named_def)
  have upd: "(new_configmap cfg [])\<lparr>cm_data := Some ([watchKey cfg \<mapsto> []]
            (watchKey cfg \<mapsto> strings_Join (map ns_name [named ''a'', named ''b'']) '',''))\<rparr> = ?upd"
    by (simp add: new_configmap_def named_def)
  have 1: "pass_events cfg (calm_world [] None p k) =
     [ListNamespaces (labelSelector cfg),
      GetConfigMap (configMapNamespace cfg) (configMapName cfg),
      CreateConfigMap (configMapNamespace cfg) ?new]"
    using calm_absent_events [of cfg "[]" p k] by (simp add: new)
  have 2: "stored ?w1 = Some ?new"
    using s by (simp add: new)
  have 3: "pass_events cfg ?w2 =
     ListNamespaces (labelSelector cfg) #
     GetConfigMap (configMapNamespace cfg) (configMapName cfg) #
     UpdateConfigMap (configMapNamespace cfg) ?upd #
     Print ''Restarting main container...'' #
     Pgrep (mainContainerName cfg) #
     (case p of
        None \<Rightarrow> [Print ''Error getting main container PID'']
      | Some out \<Rightarrow>
          (case strings_Fields out of
             [] \<Rightarrow> [Print ''Error getting main container PID'']
           | pid # rest \<Rightarrow>
               Kill pid # (if k then [] else [Print ''Error sending SIGTERM to main container''])))"
    unfolding after_create_update_events [OF ne s g u] upd pk by (rule refl)
  have 4: "creates (pass_events cfg ?w2) = 0 \<and> updates (pass_events cfg ?w2) = 1 \<and>
      signaler_calls (pass_events cfg ?w2) = 1"
    unfolding 3 by (simp add: count_defs split: option.splits list.splits)
  have a: "namespaces ?w2 = Inr [named ''a'', named ''b'']" "get_fault ?w2 = None"
    "stored ?w2 = Some (new_configmap cfg [])" "update_fault ?w2 = None"
    using s g u by (simp_all add: members_become_facts)
  have b: "data_get (cm_data (new_configmap cfg [])) (watchKey cfg)
      \<noteq> strings_Join (map ns_name [named ''a'', named ''b'']) '',''"
    using ne by (simp add: data_get_new)
  have c: "cm_data (new_configmap cfg []) = Some [watchKey cfg \<mapsto> []]"
    by (simp add: new_configmap_def)
  have 5: "stored (snd (updateConfigMap cfg ?w2)) = Some ?upd"
    unfolding stored_after_update_ok [OF a(1-3) b c a(4)] upd by (rule refl)
  have 0: "strings_Join (map ns_name []) '','' = []" by simp
  from 0 1 2 3 4 5 show ?thesis by blast
qed

text \<open>
  The claim as stated speaks of the member set, whatever its listing order. When the
  lister returns the same two members in the order b, a, the second pass writes and
  stores \<open>b,a\<close>.
\<close>

theorem empty_then_members_reordered:
  "written_values (watchKey default_config)
     (pass_events default_config
        (members_become [named ''b'', named ''a'']
           (snd (updateConfigMap default_config (quiet_world [] None))))) = [''b,a''] \<and>
   stored_value default_config
     (snd (updateConfigMap default_config
        (members_become [named ''b'', named ''a'']
           (snd (updateConfigMap default_config (quiet_world [] None)))))) = Some ''b,a''"
proof -
  let ?w1 = "snd (updateConfigMap default_config (quiet_world [] None))"
  have s: "stored ?w1 = Some (new_configmap default_config [])"
    using calm_absent_stored [of default_config "[]"] by (simp add: quiet_world_def)
  have g: "get_fault ?w1 = None" and u: "update_fault ?w1 = None"
    by (simp_all add: pass_keeps quiet_world_def calm_facts)
  have ne: "[] \<noteq> strings_Join (map ns_name [named ''b'', named ''a'']) '',''"
    by (simp add: named_def)
  have 1: "written_values (watchKey default_config)
     (pass_events default_config (members_become [named ''b'', named ''a''] ?w1)) = [''b,a'']"
    unfolding after_create_update_events [OF ne s g u]
    by (simp add: data_get_upd named_def split: option.splits list.splits)
  have 2: "stored_value default_config
     (snd (updateConfigMap default_config (members_become [named ''b'', named ''a''] ?w1))) = Some ''b,a''"
    using after_create_update_stored [OF ne s g u] by (simp add: named_def)
  from 1 2 show ?thesis by simp
qed

section \<open>What an update changes\<close>

text \<open>
  Claim C9. The object a pass hands to Update is the object Get returned with only the
  entry of the watched key changed: every other key of the data map, the name, the
  namespace and the version token are passed through, and the call goes to the
  configured namespace.
\<close>

theorem update_changes_only_watch_key:
  assumes "UpdateConfigMap ns cm' \<in> set (pass_events cfg w)"
  shows "\<exists>cm m m'. get_fault w = None \<and> stored w = Some cm \<and> cm_data cm = Some m \<and>
           cm' = cm\<lparr>cm_data := Some m'\<rparr> \<and>
           (\<forall>k. k \<noteq> watchKey cfg \<longrightarrow> m' k = m k) \<and>
           cm_name cm' = cm_name cm \<and> cm_namespace cm' = cm_namespace cm \<and>
           cm_resourceVersion cm' = cm_resourceVersion cm \<and>
           ns = configMapNamespace cfg"
proof (cases rule: pass_cases [where w = w and cfg = cfg])
  case (list_fail e)
  with assms show ?thesis by (simp add: events_list_fail)
next
  case (create items)
  with assms show ?thesis by (simp add: events_create split: if_splits)
next
  case (same items cm)
  with assms show ?thesis by (simp add: events_same)
next
  case (nil_data items cm)
  with assms show ?thesis by (simp add: events_nil_data)
next
  case (update_fail items cm m e)
  with assms have "ns = configMapNamespace cfg"
    "cm' = cm\<lparr>cm_data := Some (m(watchKey cfg \<mapsto> strings_Join (map ns_name items) '',''))\<rparr>"
    by (simp_all add: events_update_fail)
  with update_fail show ?thesis
    by (intro exI [of _ cm] exI [of _ m]
          exI [of _ "m(watchKey cfg \<mapsto> strings_Join (map ns_name items) '','')"]) simp
next
  case (update_ok items cm m)
  with assms have "ns = configMapNamespace cfg"
    "cm' = cm\<lparr>cm_data := Some (m(watchKey cfg \<mapsto> strings_Join (map ns_name items) '',''))\<rparr>"
    by (simp_all add: events_update_ok split: option.splits list.splits if_splits)
  with update_ok show ?thesis
    by (intro exI [of _ cm] exI [of _ m]
          exI [of _ "m(watchKey cfg \<mapsto> strings_Join (map ns_name items) '','')"]) simp
qed

theorem update_changes_only_watch_key_witness:
  "UpdateConfigMap ''vault'' stored_ba
      \<in> set (pass_events default_config (quiet_world [named ''b'', named ''a''] (Some stored_ab))) \<and>
   cm_name stored_ba = ''watch-namespace-config'' \<and>
   cm_namespace stored_ba = ''vault'' \<and>
   cm_resourceVersion stored_ba = ''7'' \<and>
   data_get (cm_data stored_ba) ''OTHER'' = ''x'' \<and>
   data_get (cm_data stored_ba) ''WATCH_NAMESPACE'' = ''b,a''"
proof -
  let ?w = "quiet_world [named ''b'', named ''a''] (Some stored_ab)"
  have mem: "UpdateConfigMap ''vault'' stored_ba \<in> set (pass_events default_config ?w)"
    by (simp add: quiet_reordered_events)
  have st: "stored ?w = Some stored_ab"
    by (simp add: quiet_world_def calm_world_def)
  from update_changes_only_watch_key [OF mem] st stored_ab_data
  obtain m' where m': "stored_ba = stored_ab\<lparr>cm_data := Some m'\<rparr>"
      "\<forall>k. k \<noteq> watchKey default_config \<longrightarrow>
           m' k = [''WATCH_NAMESPACE'' \<mapsto> ''a,b'', ''OTHER'' \<mapsto> ''x''] k"
      "cm_name stored_ba = cm_name stored_ab" "cm_namespace stored_ba = cm_namespace stored_ab"
      "cm_resourceVersion stored_ba = cm_resourceVersion stored_ab"
    by auto
  have o: "''OTHER'' \<noteq> watchKey default_config" by (simp add: default_config_def)
  from m'(2) o have "m' ''OTHER'' = Some ''x''" by simp
  moreover have "cm_data stored_ba = Some m'"
    by (subst m'(1)) simp
  ultimately have 1: "data_get (cm_data stored_ba) ''OTHER'' = ''x''"
    by (simp add: data_get_def)
  have 2: "data_get (cm_data stored_ba) ''WATCH_NAMESPACE'' = ''b,a''"
    by (simp add: stored_ba_def data_get_def)
  from m'(3-5) have 3: "cm_name stored_ba = ''watch-namespace-config''" "cm_namespace stored_ba = ''vault''"
    "cm_resourceVersion stored_ba = ''7''"
    by (simp_all add: stored_ab_def)
  from mem 1 2 3 show ?thesis by simp
qed

section \<open>An object without data\<close>

text \<open>
  Claim C10. For every found config object, also one whose data map is absent, the
  compare-and-update step completes without a runtime fault: the comparison reads the
  missing key as the empty string and the assignment of the new value does not fault.

  The comparison does read the empty string. The assignment \<^verbatim>\<open>cm.Data[watchKey] = newValue\<close>
  writes into the nil map and panics: with one member \<open>a\<close> and a stored object without
  data the pass ends in a panic, before any Update.
\<close>

theorem nil_data_assignment_panics:
  "data_get (cm_data stored_no_data) (watchKey default_config) = [] \<and>
   fst (updateConfigMap default_config (quiet_world [named ''a''] (Some stored_no_data))) = Panicked \<and>
   updates (pass_events default_config (quiet_world [named ''a''] (Some stored_no_data))) = 0"
proof -
  let ?w = "quiet_world [named ''a''] (Some stored_no_data)"
  have a: "namespaces ?w = Inr [named ''a'']" "get_fault ?w = None" "stored ?w = Some stored_no_data"
    "cm_data stored_no_data = None"
    by (simp_all add: world_defs)
  have b: "data_get (cm_data stored_no_data) (watchKey default_config)
      \<noteq> strings_Join (map ns_name [named ''a'']) '',''"
    by (simp add: world_defs data_get_def)
  show ?thesis
    using pass_nil_data [OF a(1-3) b a(4)] events_nil_data [OF a(1-3) b a(4)]
    by (simp add: count_defs data_get_def a(4))
qed

end
